theory Spec2Isabelle
  imports Complex_Main
begin

section \<open>Numbers and DOM rectangles\<close>

text \<open>
  A JavaScript number is modelled as a real: the coordinates, paddings, tick values and
  widths of the library are finite numbers, and no property below depends on rounding
  or on NaN.
\<close>

type_synonym number = real

text \<open>The browser's \<open>ClientRect\<close>, the value of \<open>getBoundingClientRect()\<close>.\<close>

record ClientRect =
  left :: number
  top_field :: number
  right :: number
  bottom :: number
  width :: number
  height :: number

text \<open>
  \<open>Utils.DOM\<close> is imported by \<open>numericAxis.ts\<close> and is not among the source files. The axis
  code takes its two functions as they are, so the model takes them as a parameter.
\<close>

record DOM =
  expandRect :: "ClientRect \<Rightarrow> number \<Rightarrow> ClientRect"
  clientRectsOverlap :: "ClientRect \<Rightarrow> ClientRect \<Rightarrow> bool"

section \<open>The Numeric axis (\<open>src/axes/numericAxis.ts\<close>)\<close>

datatype AxisOrientation = Bottom | Top | Left | Right

text \<open>
  The scale of the axis, read through the two calls the axis makes: \<open>domain()\<close>, an
  array of two numbers, and \<open>ticks()\<close>.
\<close>

record QuantitativeScale =
  domain :: "number \<times> number"
  ticks :: "number list"

text \<open>
  The state of a Numeric axis. The first two fields are the private fields of the class.
  The others stand for what the class reads from its base class \<open>Axis\<close> and from the
  text measurer, none of which is among the source files: the scale, the orientation,
  the \<open>_isSetup\<close> flag, \<open>tickLabelPadding()\<close>, \<open>_maxLabelTickLength()\<close>, \<open>width()\<close>,
  \<open>margin()\<close>, the formatter, and the measurer's width and height of a text.
\<close>

record Numeric =
  tickLabelPositioning :: string
  usesTextWidthApproximation_field :: bool
  scale_field :: QuantitativeScale
  orientation :: AxisOrientation
  isSetup :: bool
  tickLabelPadding :: number
  maxLabelTickLength :: number
  width_field :: number
  margin :: number
  formatter :: "number \<Rightarrow> string"
  measure_width :: "string \<Rightarrow> number"
  measure_height :: number

text \<open>
  Modelled from the spec: \<open>Axis.isHorizontal\<close> is not among the source files. The spec
  names the four orientations top, bottom, left and right, and calls an axis horizontal
  when its height, not its width, is the stable extent: the top and bottom ones.
\<close>

definition isHorizontal :: "Numeric \<Rightarrow> bool" where
  "isHorizontal ax = (orientation ax = Top \<or> orientation ax = Bottom)"

subsection \<open>\<open>_getTickValues\<close>\<close>

definition getTickValues :: "Numeric \<Rightarrow> number list" where
  "getTickValues ax =
     (let scale = scale_field ax;
          domain = domain scale;
          min = (if fst domain \<le> snd domain then fst domain else snd domain);
          max = (if fst domain \<ge> snd domain then fst domain else snd domain)
      in filter (\<lambda>i. i \<ge> min \<and> i \<le> max) (ticks scale))"

subsection \<open>\<open>_computeWidth\<close>\<close>

text \<open>
  Modelled from the spec: \<open>Utils.Math.max\<close> is not among the source files. The spec has the
  layout take the maximum measured label extent across the tick values; the second
  argument is the value for no tick at all.
\<close>

definition Utils_Math_max :: "number list \<Rightarrow> number \<Rightarrow> number" where
  "Utils_Math_max xs default_value =
     (case xs of [] \<Rightarrow> default_value | y # ys \<Rightarrow> fold max ys y)"

definition computeExactTextWidth :: "Numeric \<Rightarrow> number" where
  "computeExactTextWidth ax =
     (let tickValues = getTickValues ax;
          textLengths = map (\<lambda>v. let formattedValue = formatter ax v
                                  in measure_width ax formattedValue) tickValues
      in Utils_Math_max textLengths 0)"

definition computeApproximateTextWidth :: "Numeric \<Rightarrow> number" where
  "computeApproximateTextWidth ax =
     (let tickValues = getTickValues ax;
          mWidth = measure_width ax ''M'';
          textLengths = map (\<lambda>v. let formattedValue = formatter ax v
                                  in of_nat (length formattedValue) * mWidth) tickValues
      in Utils_Math_max textLengths 0)"

definition computeWidth :: "Numeric \<Rightarrow> number" where
  "computeWidth ax =
     (let maxTextWidth = (if usesTextWidthApproximation_field ax
                          then computeApproximateTextWidth ax
                          else computeExactTextWidth ax)
      in if tickLabelPositioning ax = ''center''
         then maxLabelTickLength ax + tickLabelPadding ax + maxTextWidth
         else max (maxLabelTickLength ax) (tickLabelPadding ax + maxTextWidth))"

definition computeHeight :: "Numeric \<Rightarrow> number" where
  "computeHeight ax =
     (let textHeight = measure_height ax
      in if tickLabelPositioning ax = ''center''
         then maxLabelTickLength ax + tickLabelPadding ax + textHeight
         else max (maxLabelTickLength ax) (tickLabelPadding ax + textHeight))"

subsection \<open>\<open>_rescale\<close>\<close>

text \<open>
  \<open>redraw()\<close> (the structural redraw, a layout pass) and \<open>render()\<close> (re-rendering in
  place) belong to the component base class. The model records which of them a method
  calls, in call order.
\<close>

datatype effect = Redraw | Render

definition rescale :: "Numeric \<Rightarrow> effect list" where
  "rescale ax =
     (if \<not> isSetup ax then []
      else if \<not> isHorizontal ax \<and>
              (let reComputedWidth = computeWidth ax
               in reComputedWidth > width_field ax \<or>
                  reComputedWidth < width_field ax - margin ax)
           then [Redraw]
           else [Render])"

subsection \<open>\<open>tickLabelPosition\<close>\<close>

text \<open>
  \<open>String.prototype.toLowerCase\<close>, on the ASCII letters: a capital letter (codes 65 to
  90) becomes the letter 32 above it, which is the same code with bit 5 set. Outside ASCII the model leaves a
  character as it is; no such character lower-cases to a letter of the six position
  names, so the validity test below is the same.
\<close>

definition lower_char :: "char \<Rightarrow> char" where
  "lower_char c =
     (let n = (of_char c :: nat)
      in if 65 \<le> n \<and> n \<le> 90
         then (case c of Char b0 b1 b2 b3 b4 b5 b6 b7 \<Rightarrow> Char b0 b1 b2 b3 b4 True b6 b7)
         else c)"

definition toLowerCase :: "string \<Rightarrow> string" where
  "toLowerCase s = map lower_char s"

text \<open>A thrown \<open>new Error(message)\<close>.\<close>

datatype error = Error string

text \<open>
  What a call of \<open>tickLabelPosition\<close> gives back: the getter's string, the axis itself
  (\<open>this\<close>) from the setter, or the exception it threw.
\<close>

datatype position_result = Position string | This | Threw error

text \<open>
  The argument is \<open>None\<close> for a call without a position (\<open>position == null\<close>). The result
  comes with the axis after the call and the effects the call had.
\<close>

definition tickLabelPosition ::
  "string option \<Rightarrow> Numeric \<Rightarrow> position_result \<times> Numeric \<times> effect list" where
  "tickLabelPosition position ax =
     (case position of
        None \<Rightarrow> (Position (tickLabelPositioning ax), ax, [])
      | Some p \<Rightarrow>
          (let positionLC = toLowerCase p
           in if isHorizontal ax
              then (if \<not> (positionLC = ''left'' \<or> positionLC = ''center'' \<or> positionLC = ''right'')
                    then (Threw (Error (positionLC @
                            '' is not a valid tick label position for a horizontal NumericAxis'')),
                          ax, [])
                    else (This, ax\<lparr>tickLabelPositioning := positionLC\<rparr>, [Redraw]))
              else (if \<not> (positionLC = ''top'' \<or> positionLC = ''center'' \<or> positionLC = ''bottom'')
                    then (Threw (Error (positionLC @
                            '' is not a valid tick label position for a vertical NumericAxis'')),
                          ax, [])
                    else (This, ax\<lparr>tickLabelPositioning := positionLC\<rparr>, [Redraw]))))"

text \<open>
  The positions that are valid for an orientation, after lower-casing, as the
  documentation of the setter lists them.
\<close>

definition valid_positions :: "bool \<Rightarrow> string list" where
  "valid_positions horizontal =
     (if horizontal then [''left'', ''center'', ''right''] else [''top'', ''center'', ''bottom''])"

subsection \<open>\<open>_hasOverlapWithInterval\<close> and \<open>_hideOverlappingTickLabels\<close>\<close>

text \<open>
  A tick label of the axis, as far as the overlap pass looks at it: its computed
  \<open>visibility\<close> style and its bounding rect. The tick label container is the list of its
  labels in tick order.
\<close>

record TickLabel =
  visibility :: string
  boundingClientRect :: ClientRect

text \<open>The test of the selection's \<open>filter\<close>.\<close>

definition is_shown :: "TickLabel \<Rightarrow> bool" where
  "is_shown label = (visibility label = ''inherit'' \<or> visibility label = ''visible'')"

text \<open>The constant \<open>padding\<close> of \<open>_hasOverlapWithInterval\<close>.\<close>

definition overlap_padding :: "Numeric \<Rightarrow> number" where
  "overlap_padding ax =
     (if tickLabelPositioning ax = ''center''
      then tickLabelPadding ax
      else tickLabelPadding ax * 3)"

text \<open>
  The \<open>for\<close> loop of \<open>_hasOverlapWithInterval\<close>, from the index \<open>i\<close> on. The loop adds
  \<open>interval\<close> to \<open>i\<close> in every round, so with \<open>interval = 0\<close> it need not end: the result is
  an option, \<open>None\<close> for a loop that does not return. The comparison is the source's,
  \<open>i < length - interval\<close> on numbers that may be negative.
\<close>

partial_function (option) overlap_loop ::
  "DOM \<Rightarrow> nat \<Rightarrow> ClientRect list \<Rightarrow> nat \<Rightarrow> bool option" where
  "overlap_loop utils interval rectsWithPadding i =
     (if int i < int (length rectsWithPadding) - int interval
      then (if clientRectsOverlap utils (rectsWithPadding ! i) (rectsWithPadding ! (i + interval))
            then Some False
            else overlap_loop utils interval rectsWithPadding (i + interval))
      else Some True)"

declare overlap_loop.simps [code]

text \<open>
  As its documentation says, the method returns \<open>true\<close> when taking every \<open>interval\<close>-th
  rect leaves no overlap, and \<open>false\<close> as soon as a tested pair overlaps.
\<close>

definition hasOverlapWithInterval ::
  "DOM \<Rightarrow> Numeric \<Rightarrow> nat \<Rightarrow> ClientRect list \<Rightarrow> bool option" where
  "hasOverlapWithInterval utils ax interval rects =
     (let padding = overlap_padding ax;
          rectsWithPadding = map (\<lambda>rect. expandRect utils rect padding) rects
      in overlap_loop utils interval rectsWithPadding 0)"

text \<open>The \<open>while\<close> loop of \<open>_hideOverlappingTickLabels\<close>, entered with \<open>interval\<close>.\<close>

function interval_search :: "DOM \<Rightarrow> Numeric \<Rightarrow> ClientRect list \<Rightarrow> nat \<Rightarrow> nat option" where
  "interval_search utils ax rects interval =
     (case hasOverlapWithInterval utils ax interval rects of
        None \<Rightarrow> None
      | Some no_overlap \<Rightarrow>
          if \<not> no_overlap \<and> interval < length rects
          then interval_search utils ax rects (interval + 1)
          else Some interval)"
  by pat_completeness auto
termination
  by (relation "measure (\<lambda>(utils, ax, rects, interval). length rects - interval)") auto

declare interval_search.simps [simp del]

text \<open>
  The final \<open>each\<close> over the selection of shown labels. A selection holds the DOM nodes
  themselves, so hiding a label of the selection hides it in the container; \<open>i\<close> is the
  index of the label within the selection, which counts the shown labels only.
\<close>

fun each_shown :: "nat \<Rightarrow> TickLabel list \<Rightarrow> nat \<Rightarrow> TickLabel list" where
  "each_shown interval [] i = []"
| "each_shown interval (tickLabel # rest) i =
     (if is_shown tickLabel
      then (if i mod interval \<noteq> 0 then tickLabel\<lparr>visibility := ''hidden''\<rparr> else tickLabel)
           # each_shown interval rest (i + 1)
      else tickLabel # each_shown interval rest i)"

definition hideOverlappingTickLabels ::
  "DOM \<Rightarrow> Numeric \<Rightarrow> TickLabel list \<Rightarrow> TickLabel list option" where
  "hideOverlappingTickLabels utils ax tickLabels =
     (let visibleTickLabels = filter is_shown tickLabels;
          visibleTickLabelRects = map boundingClientRect visibleTickLabels
      in case interval_search utils ax visibleTickLabelRects 1 of
           None \<Rightarrow> None
         | Some interval \<Rightarrow> Some (each_shown interval tickLabels 0))"

text \<open>
  Modelled from the spec: \<open>Utils.DOM.expandRect\<close> and \<open>Utils.DOM.clientRectsOverlap\<close> are not
  among the source files. The spec has each rect expanded by the padding on all sides
  and then tested for overlap; two rects overlap when they share an area, so rects that
  only touch do not.
\<close>

definition spec_DOM :: DOM where
  "spec_DOM =
     \<lparr> expandRect = (\<lambda>rect amount.
         \<lparr> left = left rect - amount, top_field = top_field rect - amount,
           right = right rect + amount, bottom = bottom rect + amount,
           width = width rect + amount * 2, height = height rect + amount * 2 \<rparr>),
       clientRectsOverlap = (\<lambda>a b.
         left a < right b \<and> left b < right a \<and>
         top_field a < bottom b \<and> top_field b < bottom a) \<rparr>"

text \<open>
  The test the accepted interval has passed: no overlap between the padded rects at the
  positions \<open>k * interval\<close> and \<open>(k + 1) * interval\<close>, the consecutive labels that stay shown.
\<close>

definition no_tested_overlap :: "DOM \<Rightarrow> number \<Rightarrow> nat \<Rightarrow> ClientRect list \<Rightarrow> bool" where
  "no_tested_overlap utils padding interval rects =
     (\<forall>k. (k + 1) * interval < length rects \<longrightarrow>
        \<not> clientRectsOverlap utils (expandRect utils (rects ! (k * interval)) padding)
                                 (expandRect utils (rects ! ((k + 1) * interval)) padding))"

text \<open>
  The test in the words of the spec: no overlap between any two padded rects \<open>interval\<close>
  apart in tick order.
\<close>

definition no_overlap_interval_apart :: "DOM \<Rightarrow> number \<Rightarrow> nat \<Rightarrow> ClientRect list \<Rightarrow> bool" where
  "no_overlap_interval_apart utils padding interval rects =
     (\<forall>i. i + interval < length rects \<longrightarrow>
        \<not> clientRectsOverlap utils (expandRect utils (rects ! i) padding)
                                 (expandRect utils (rects ! (i + interval)) padding))"

text \<open>The index a label of the container has in the selection of shown labels.\<close>

definition shown_index :: "TickLabel list \<Rightarrow> nat \<Rightarrow> nat" where
  "shown_index tickLabels p = length (filter is_shown (take p tickLabels))"

text \<open>A shown label whose rect spans \<open>[l, r]\<close> across and \<open>[t, b]\<close> down.\<close>

definition label_at :: "number \<Rightarrow> number \<Rightarrow> number \<Rightarrow> number \<Rightarrow> TickLabel" where
  "label_at l r t b =
     \<lparr> visibility = ''inherit'',
       boundingClientRect = \<lparr> left = l, top_field = t, right = r, bottom = b,
                              width = r - l, height = b - t \<rparr> \<rparr>"

text \<open>An axis to evaluate the definitions on: four ticks, the domain given downwards.\<close>

definition example_axis :: "AxisOrientation \<Rightarrow> Numeric" where
  "example_axis orient =
     \<lparr> tickLabelPositioning = ''center'',
       usesTextWidthApproximation_field = False,
       scale_field = \<lparr> domain = (10, 0), ticks = [-5, 0, 5, 10, 15] \<rparr>,
       orientation = orient,
       isSetup = True,
       tickLabelPadding = 10,
       maxLabelTickLength = 5,
       width_field = 30,
       margin = 15,
       formatter = (\<lambda>v. if v < 10 then ''0'' else ''10''),
       measure_width = (\<lambda>s. 7 * of_nat (length s)),
       measure_height = 12 \<rparr>"

text \<open>
  The four labels of the spec's example, spanning \<open>[0,10]\<close>, \<open>[8,18]\<close>, \<open>[20,30]\<close> and
  \<open>[40,50]\<close> across, on a common line \<open>[t, b]\<close>.
\<close>

definition spec_example_labels :: "number \<Rightarrow> number \<Rightarrow> TickLabel list" where
  "spec_example_labels t b =
     [label_at 0 10 t b, label_at 8 18 t b, label_at 20 30 t b, label_at 40 50 t b]"

text \<open>
  Four shown labels with a wide second one, and a label hidden before the pass between
  the first two; an axis with edge-aligned labels and a label padding of 1.
\<close>

definition wide_labels :: "TickLabel list" where
  "wide_labels =
     [label_at 0 10 0 10, (label_at 4 14 0 10)\<lparr>visibility := ''hidden''\<rparr>,
      label_at 8 40 0 10, label_at 20 30 0 10, label_at 44 54 0 10]"

definition edge_axis :: Numeric where
  "edge_axis = (example_axis Bottom)\<lparr>tickLabelPositioning := ''left'', tickLabelPadding := 1\<rparr>"

text \<open>The same four rects, all shown, on an axis with centred labels and a label padding of 2.\<close>

definition wide_rects :: "ClientRect list" where
  "wide_rects =
     map boundingClientRect
       [label_at 0 10 0 10, label_at 8 40 0 10, label_at 20 30 0 10, label_at 42 52 0 10]"

definition center_axis :: Numeric where
  "center_axis = (example_axis Bottom)\<lparr>tickLabelPadding := 2\<rparr>"

section \<open>JavaScript values\<close>

text \<open>
  The values an accessor or an attribute projector gives: \<open>undefined\<close>, \<open>null\<close>, a number
  or a string.
\<close>

datatype jsval = Undefined | Null | Num number | Str string

section \<open>Scales\<close>

text \<open>
  Scales are objects shared between the caller, the plot and the closures the plot
  makes: a scale is held by reference, and the store gives the object behind each
  reference.
\<close>

type_synonym ref = nat

text \<open>
  Modelled from the spec: \<open>Scales.Category\<close> is not among the source files. The spec gives
  a category scale an inner and an outer padding (\<open>innerPadding(n)\<close>, \<open>outerPadding(n)\<close>),
  \<open>scale(value)\<close> and the band width \<open>rangeBand()\<close>. How the last two follow from the
  paddings is the scale's own business: the field \<open>layout\<close> gives the mapping and the band
  width for a pair of paddings.
\<close>

record CategoryScale =
  innerPadding_field :: number
  outerPadding_field :: number
  layout :: "number \<Rightarrow> number \<Rightarrow> (jsval \<Rightarrow> number) \<times> number"

definition Category_scale :: "CategoryScale \<Rightarrow> jsval \<Rightarrow> number" where
  "Category_scale c v = fst (layout c (innerPadding_field c) (outerPadding_field c)) v"

definition rangeBand :: "CategoryScale \<Rightarrow> number" where
  "rangeBand c = snd (layout c (innerPadding_field c) (outerPadding_field c))"

definition innerPadding :: "number \<Rightarrow> CategoryScale \<Rightarrow> CategoryScale" where
  "innerPadding n c = c\<lparr>innerPadding_field := n\<rparr>"

definition outerPadding :: "number \<Rightarrow> CategoryScale \<Rightarrow> CategoryScale" where
  "outerPadding n c = c\<lparr>outerPadding_field := n\<rparr>"

text \<open>
  Modelled from the spec: the scale classes are not among the source files. The spec
  gives every scale \<open>scale(value)\<close>. The classes are those the plot tells apart with
  \<open>instanceof\<close>: a category scale, a quantitative scale (its \<open>scale(value)\<close>, a number),
  and any other scale, such as a colour scale.
\<close>

datatype Scale =
  Category CategoryScale
  | AbstractQuantitative "jsval \<Rightarrow> number"
  | OtherScale "jsval \<Rightarrow> jsval"

type_synonym scales = "ref \<Rightarrow> Scale"

text \<open>\<open>scale.scale(v)\<close>, by the class of the scale.\<close>

definition Scale_scale :: "Scale \<Rightarrow> jsval \<Rightarrow> jsval" where
  "Scale_scale s v =
     (case s of
        Category c \<Rightarrow> Num (Category_scale c v)
      | AbstractQuantitative f \<Rightarrow> Num (f v)
      | OtherScale f \<Rightarrow> f v)"

text \<open>
  \<open>scale instanceof Scales.Category\<close> and \<open>scale instanceof Scales.AbstractQuantitative\<close>,
  for a scale that may be \<open>undefined\<close>; the result is the reference when the test holds.
\<close>

definition instanceof_Category :: "scales \<Rightarrow> ref option \<Rightarrow> ref option" where
  "instanceof_Category \<sigma> scale =
     (case scale of
        None \<Rightarrow> None
      | Some s \<Rightarrow> (case \<sigma> s of Category c \<Rightarrow> Some s | _ \<Rightarrow> None))"

definition instanceof_AbstractQuantitative :: "scales \<Rightarrow> ref option \<Rightarrow> ref option" where
  "instanceof_AbstractQuantitative \<sigma> scale =
     (case scale of
        None \<Rightarrow> None
      | Some s \<Rightarrow> (case \<sigma> s of AbstractQuantitative f \<Rightarrow> Some s | _ \<Rightarrow> None))"

section \<open>The Grid plot\<close>

text \<open>
  An accessor is a function of the datum and its index (the two further arguments the
  plot passes, the user metadata and the plot metadata, are left out). Besides the
  accessors the caller gives, there are the three kinds of closure \<open>Grid.project\<close> makes.
  Each closure holds the scale it was made for and reads the accessor of the \<open>x\<close> or \<open>y\<close>
  projection from the plot when it is called:
  \<^item> \<open>BandStart attr s\<close> is \<open>s.scale(_projections[attr].accessor(d, i)) - s.rangeBand() / 2\<close>;
  \<^item> \<open>BandEnd attr s\<close> is \<open>s.scale(_projections[attr].accessor(d, i)) + s.rangeBand() / 2\<close>;
  \<^item> \<open>ScaledValue attr s\<close> is \<open>s.scale(_projections[attr].accessor(d, i))\<close>.
\<close>

datatype 'd accessor =
  Accessor "'d \<Rightarrow> nat \<Rightarrow> jsval"
  | BandStart string ref
  | BandEnd string ref
  | ScaledValue string ref

record 'd Projection =
  p_accessor :: "'d accessor"
  p_scale :: "ref option"

datatype Animator = Null_Animator

text \<open>
  The state of a Grid plot: its own field \<open>_colorScale\<close>, the fields of the base classes
  the source reads (\<open>_projections\<close>, \<open>_datasetKeysInOrder\<close>), what \<open>classed\<close> and \<open>animator\<close>
  were given, and in \<open>inherited\<close> all the rest of the state of the base classes, the
  datasets included.
\<close>

record ('d, 'b) Grid =
  colorScale_field :: "ref option"
  projections :: "string \<rightharpoonup> 'd Projection"
  datasetKeysInOrder :: "string list"
  classes :: "string \<rightharpoonup> bool"
  animators :: "string \<rightharpoonup> Animator"
  inherited :: 'b

text \<open>
  Calling an accessor on a datum and its index, in a plot with the projections \<open>ps\<close> and
  with the scales as they are at the call. \<open>None\<close> is a call that returns no value: the
  closure reads the accessor of a projection that is not there (a \<open>TypeError\<close>), or the
  closures call each other without end.
\<close>

partial_function (option) call_accessor ::
  "(string \<rightharpoonup> 'd Projection) \<Rightarrow> scales \<Rightarrow> 'd accessor \<Rightarrow> 'd \<Rightarrow> nat \<Rightarrow> jsval option" where
  "call_accessor ps \<sigma> a d i =
     (case a of
        Accessor f \<Rightarrow> Some (f d i)
      | BandStart attr s \<Rightarrow>
          (case ps attr of
             None \<Rightarrow> None
           | Some p \<Rightarrow>
               Option.bind (call_accessor ps \<sigma> (p_accessor p) d i)
                 (\<lambda>v. case Scale_scale (\<sigma> s) v of
                        Num scaled \<Rightarrow>
                          (case \<sigma> s of
                             Category c \<Rightarrow> Some (Num (scaled - rangeBand c / 2))
                           | _ \<Rightarrow> None)
                      | _ \<Rightarrow> None))
      | BandEnd attr s \<Rightarrow>
          (case ps attr of
             None \<Rightarrow> None
           | Some p \<Rightarrow>
               Option.bind (call_accessor ps \<sigma> (p_accessor p) d i)
                 (\<lambda>v. case Scale_scale (\<sigma> s) v of
                        Num scaled \<Rightarrow>
                          (case \<sigma> s of
                             Category c \<Rightarrow> Some (Num (scaled + rangeBand c / 2))
                           | _ \<Rightarrow> None)
                      | _ \<Rightarrow> None))
      | ScaledValue attr s \<Rightarrow>
          (case ps attr of
             None \<Rightarrow> None
           | Some p \<Rightarrow>
               Option.bind (call_accessor ps \<sigma> (p_accessor p) d i)
                 (\<lambda>v. Some (Scale_scale (\<sigma> s) v))))"

declare call_accessor.simps [code]

text \<open>
  Modelled from the spec: \<open>Plot.project\<close>, the \<open>super.project\<close> of the Grid plot, is not among
  the source files. By the spec a projection is a named mapping from a dataset attribute
  to a visual attribute via an accessor function and an optional scale; projecting an
  attribute stores the accessor and the scale under its name.
\<close>

definition Plot_project ::
  "string \<Rightarrow> 'd accessor \<Rightarrow> ref option \<Rightarrow> ('d, 'b) Grid \<Rightarrow> ('d, 'b) Grid" where
  "Plot_project attrToSet accessor scale plot =
     plot\<lparr>projections := (projections plot)(attrToSet \<mapsto> \<lparr>p_accessor = accessor, p_scale = scale\<rparr>)\<rparr>"

text \<open>
  Modelled from the spec: the plot's attribute projector (\<open>_generateAttrToProjector\<close> is not
  among the source files). The value of a projection at a datum is its accessor's value,
  sent through the projection's scale when it has one.
\<close>

definition projector ::
  "('d, 'b) Grid \<Rightarrow> scales \<Rightarrow> string \<Rightarrow> 'd \<Rightarrow> nat \<Rightarrow> jsval option" where
  "projector plot \<sigma> attr d i =
     (case projections plot attr of
        None \<Rightarrow> None
      | Some p \<Rightarrow>
          (case call_accessor (projections plot) \<sigma> (p_accessor p) d i of
             None \<Rightarrow> None
           | Some v \<Rightarrow>
               (case p_scale p of
                  None \<Rightarrow> Some v
                | Some s \<Rightarrow> Some (Scale_scale (\<sigma> s) v))))"

text \<open>
  \<open>Grid.project\<close>. The scales are read for the \<open>instanceof\<close> tests only. The calls of
  \<open>this.project\<close> for the derived attributes come back to this method.
\<close>

function project ::
  "scales \<Rightarrow> string \<Rightarrow> 'd accessor \<Rightarrow> ref option \<Rightarrow> ('d, 'b) Grid \<Rightarrow> ('d, 'b) Grid" where
  "project \<sigma> attrToSet accessor scale plot =
     (let plot1 = Plot_project attrToSet accessor scale plot;
          plot2 =
            (if attrToSet = ''x''
             then (let plot_c =
                         (case instanceof_Category \<sigma> scale of
                            Some s \<Rightarrow>
                              project \<sigma> ''x2'' (BandEnd ''x'' s) None
                                (project \<sigma> ''x1'' (BandStart ''x'' s) None plot1)
                          | None \<Rightarrow> plot1)
                   in case instanceof_AbstractQuantitative \<sigma> scale of
                        Some s \<Rightarrow> project \<sigma> ''x1'' (ScaledValue ''x'' s) None plot_c
                      | None \<Rightarrow> plot_c)
             else plot1);
          plot3 =
            (if attrToSet = ''y''
             then (let plot_c =
                         (case instanceof_Category \<sigma> scale of
                            Some s \<Rightarrow>
                              project \<sigma> ''y2'' (BandEnd ''y'' s) None
                                (project \<sigma> ''y1'' (BandStart ''y'' s) None plot2)
                          | None \<Rightarrow> plot2)
                   in case instanceof_AbstractQuantitative \<sigma> scale of
                        Some s \<Rightarrow> project \<sigma> ''y1'' (ScaledValue ''y'' s) None plot_c
                      | None \<Rightarrow> plot_c)
             else plot2)
      in if attrToSet = ''fill''
         then (case projections plot3 ''fill'' of
                 Some p \<Rightarrow> plot3\<lparr>colorScale_field := p_scale p\<rparr>
               | None \<Rightarrow> plot3)
         else plot3)"
  by pat_completeness auto
termination
  by (relation "measure (\<lambda>(\<sigma>, attrToSet, accessor, scale, plot).
                   if attrToSet = ''x'' \<or> attrToSet = ''y'' then 1 else 0)") auto

declare project.simps [simp del]

text \<open>
  Modelled from the spec: \<open>classed\<close> and \<open>animator\<close> are setters of the base classes and
  not among the source files. The spec has the plot carry a configured animation
  strategy for its draw step; each setter stores what it is given under its key.
\<close>

definition classed :: "string \<Rightarrow> bool \<Rightarrow> ('d, 'b) Grid \<Rightarrow> ('d, 'b) Grid" where
  "classed cssClass addClass plot = plot\<lparr>classes := (classes plot)(cssClass \<mapsto> addClass)\<rparr>"

definition animator :: "string \<Rightarrow> Animator \<Rightarrow> ('d, 'b) Grid \<Rightarrow> ('d, 'b) Grid" where
  "animator animatorKey a plot = plot\<lparr>animators := (animators plot)(animatorKey \<mapsto> a)\<rparr>"

text \<open>
  The constructor. The constructor of the base class, \<open>super(xScale, yScale)\<close>, is not
  among the source files: it is a parameter, which gives the plot as the base class
  builds it and the scales as it leaves them. The constructor returns the new plot and
  the scales.
\<close>

definition Grid_constructor ::
  "(ref \<Rightarrow> ref \<Rightarrow> scales \<Rightarrow> ('d, 'b) Grid \<times> scales) \<Rightarrow>
   ref \<Rightarrow> ref \<Rightarrow> ref \<Rightarrow> scales \<Rightarrow> ('d, 'b) Grid \<times> scales" where
  "Grid_constructor super_constructor xScale yScale colorScale \<sigma> =
     (let (plot0, \<sigma>0) = super_constructor xScale yScale \<sigma>;
          plot1 = classed ''grid-plot'' True plot0;
          \<sigma>1 = (case \<sigma>0 xScale of
                  Category c \<Rightarrow> \<sigma>0(xScale := Category (outerPadding 0 (innerPadding 0 c)))
                | _ \<Rightarrow> \<sigma>0);
          \<sigma>2 = (case \<sigma>1 yScale of
                  Category c \<Rightarrow> \<sigma>1(yScale := Category (outerPadding 0 (innerPadding 0 c)))
                | _ \<Rightarrow> \<sigma>1);
          plot2 = plot1\<lparr>colorScale_field := Some colorScale\<rparr>
      in (animator ''cells'' Null_Animator plot2, \<sigma>2))"

text \<open>
  \<open>addDataset\<close>. \<open>Utils.Methods.warn\<close> writes to the console: the result is the plot after
  the call (which is also the \<open>this\<close> the method returns) and the warnings the call gave.
  \<open>super.addDataset\<close> is not among the source files and is a parameter.
\<close>

definition addDataset ::
  "('k \<Rightarrow> 'ds option \<Rightarrow> ('d, 'b) Grid \<Rightarrow> ('d, 'b) Grid \<times> string list) \<Rightarrow>
   'k \<Rightarrow> 'ds option \<Rightarrow> ('d, 'b) Grid \<Rightarrow> ('d, 'b) Grid \<times> string list" where
  "addDataset super_addDataset keyOrDataset dataset plot =
     (if length (datasetKeysInOrder plot) = 1
      then (plot, [''Only one dataset is supported in Grid plots''])
      else super_addDataset keyOrDataset dataset plot)"

text \<open>Scales and a plot to evaluate the definitions on.\<close>

definition example_category :: CategoryScale where
  "example_category =
     \<lparr> innerPadding_field = 3 / 10, outerPadding_field = 1 / 10,
       layout = (\<lambda>inner outer.
         (\<lambda>v. case v of Str name \<Rightarrow> 100 * outer + 50 * of_nat (length name) | _ \<Rightarrow> 0,
          50 * (1 - inner))) \<rparr>"

definition example_scales :: scales where
  "example_scales =
     (\<lambda>r. if r = 0 then Category example_category
          else if r = 1 then AbstractQuantitative (\<lambda>v. case v of Num x \<Rightarrow> 2 * x | _ \<Rightarrow> 0)
          else OtherScale (\<lambda>v. Str ''#ffffff''))"

definition empty_plot :: "(string, unit) Grid" where
  "empty_plot =
     \<lparr> colorScale_field = None, projections = Map.empty, datasetKeysInOrder = [],
       classes = Map.empty, animators = Map.empty, inherited = () \<rparr>"

text \<open>A base class that keeps the scales as they are and adds a dataset under its key.\<close>

definition example_super :: "ref \<Rightarrow> ref \<Rightarrow> scales \<Rightarrow> (string, unit) Grid \<times> scales" where
  "example_super xScale yScale \<sigma> = (empty_plot, \<sigma>)"

definition example_addDataset ::
  "string \<Rightarrow> string list option \<Rightarrow> (string, unit) Grid \<Rightarrow> (string, unit) Grid \<times> string list" where
  "example_addDataset key dataset plot =
     (plot\<lparr>datasetKeysInOrder := datasetKeysInOrder plot @ [key]\<rparr>, [])"

section \<open>The component container\<close>

text \<open>
  What \<open>ComponentContainer.remove\<close> calls on the component and on itself, besides its own
  \<open>has\<close>: \<open>component.offDetach(this._detachCallback)\<close>, \<open>this._remove(component)\<close>,
  \<open>component.detach()\<close> and \<open>this.redraw()\<close>. The component and the base class of the
  container are not among the source files; the model keeps the calls in call order.
\<close>

datatype 'c container_call =
  OffDetach 'c
  | Remove_variant 'c
  | Detach 'c
  | Redraw_container

text \<open>
  The two methods of the container that its subclasses override, over the state \<open>'s\<close> in
  which a subclass keeps its children: \<open>has\<close>, which may throw, and the protected
  \<open>_remove\<close>, which returns whether it removed the component, with the state after it.
\<close>

record ('s, 'c) container_class =
  has :: "'s \<Rightarrow> 'c \<Rightarrow> error + bool"
  remove_variant :: "'c \<Rightarrow> 's \<Rightarrow> bool \<times> 's"

text \<open>The class \<open>ComponentContainer\<close> itself: \<open>has\<close> throws, \<open>_remove\<close> returns \<open>false\<close>.\<close>

definition ComponentContainer :: "('s, 'c) container_class" where
  "ComponentContainer =
     \<lparr> has = (\<lambda>s component. Inl (Error ''has() is not implemented on ComponentContainer'')),
       remove_variant = (\<lambda>component s. (False, s)) \<rparr>"

text \<open>
  \<open>remove\<close>, for a container of the class \<open>cls\<close>. The result is what the call gives back
  (\<open>this\<close>, or the exception of \<open>has\<close>), the state of the children after it and the calls
  it made. The boolean that \<open>_remove\<close> returns is dropped, as in the source.
\<close>

definition remove ::
  "('s, 'c) container_class \<Rightarrow> 'c \<Rightarrow> 's \<Rightarrow> (error + unit) \<times> 's \<times> 'c container_call list" where
  "remove cls component s =
     (case has cls s component of
        Inl e \<Rightarrow> (Inl e, s, [])
      | Inr member \<Rightarrow>
          if member
          then (Inr (), snd (remove_variant cls component s),
                [OffDetach component, Remove_variant component, Detach component,
                 Redraw_container])
          else (Inr (), s, []))"


section \<open>The Rectangle drawer\<close>

text \<open>
  The truth value JavaScript gives a value in a condition: \<open>undefined\<close>, \<open>null\<close>, the
  number 0 and the empty string are falsy.
\<close>

definition truthy :: "jsval \<Rightarrow> bool" where
  "truthy v = (case v of Undefined \<Rightarrow> False | Null \<Rightarrow> False | Num x \<Rightarrow> x \<noteq> 0 | Str s \<Rightarrow> s \<noteq> [])"

text \<open>
  A colour object of d3: its channels, of a type left open, and its \<open>opacity\<close> field,
  which the drawer may overwrite with whatever the opacity attribute resolved to.
  \<open>d3.color\<close> itself belongs to the d3 library and is a parameter of the drawer: it gives
  \<open>None\<close> for \<open>null\<close>, its result on a value that is no colour.
\<close>

record 'ch d3_color =
  channels :: 'ch
  opacity :: jsval

text \<open>
  The calls on the canvas context. \<open>StrokeStyle c\<close> and \<open>FillStyle c\<close> are the assignments
  of \<open>c.rgb().toString()\<close> to \<open>context.strokeStyle\<close> and \<open>context.fillStyle\<close>.
\<close>

datatype 'ch canvas_call =
  BeginPath
  | Rect jsval jsval jsval jsval
  | StrokeStyle "'ch d3_color"
  | Stroke
  | FillStyle "'ch d3_color"
  | Fill

text \<open>Reading a property of an object of resolved attributes: \<open>undefined\<close> when it is absent.\<close>

definition get_attr :: "(string \<rightharpoonup> jsval) \<Rightarrow> string \<Rightarrow> jsval" where
  "get_attr obj attrName = (case obj attrName of None \<Rightarrow> Undefined | Some v \<Rightarrow> v)"

text \<open>
  The \<open>reduce\<close> over the keys of \<open>attrToAppliedProjector\<close>, an object given as the list of
  its keys and projectors in key order.
\<close>

definition resolve_attrs ::
  "(string \<times> ('d \<Rightarrow> nat \<Rightarrow> jsval)) list \<Rightarrow> 'd \<Rightarrow> nat \<Rightarrow> (string \<rightharpoonup> jsval)" where
  "resolve_attrs attrToAppliedProjector point index =
     fold (\<lambda>(attrName, applied) obj. obj(attrName \<mapsto> applied point index))
       attrToAppliedProjector Map.empty"

text \<open>
  The body of the \<open>forEach\<close> callback for one point: the calls it makes on the context,
  and whether it ended by throwing. It throws a \<open>TypeError\<close> when \<open>d3.color\<close> gives \<open>null\<close>
  for a stroke or fill that is set, on the first use of the colour.
\<close>

datatype thrown = TypeError

definition draw_point ::
  "(jsval \<Rightarrow> 'ch d3_color option) \<Rightarrow> (string \<times> ('d \<Rightarrow> nat \<Rightarrow> jsval)) list \<Rightarrow> 'd \<Rightarrow> nat \<Rightarrow>
   'ch canvas_call list \<times> thrown option" where
  "draw_point d3_color_of attrToAppliedProjector point index =
     (let resolvedAttrs = resolve_attrs attrToAppliedProjector point index;
          path = [BeginPath,
                  Rect (get_attr resolvedAttrs ''x'') (get_attr resolvedAttrs ''y'')
                       (get_attr resolvedAttrs ''width'') (get_attr resolvedAttrs ''height'')];
          stroked =
            (if truthy (get_attr resolvedAttrs ''stroke'')
             then (case d3_color_of (get_attr resolvedAttrs ''stroke'') of
                     None \<Rightarrow> ([], Some TypeError)
                   | Some strokeColor \<Rightarrow>
                       ([StrokeStyle
                           (if truthy (get_attr resolvedAttrs ''opacity'')
                            then strokeColor\<lparr>opacity := get_attr resolvedAttrs ''opacity''\<rparr>
                            else strokeColor),
                         Stroke], None))
             else ([], None))
      in case snd stroked of
           Some e \<Rightarrow> (path @ fst stroked, Some e)
         | None \<Rightarrow>
             (if truthy (get_attr resolvedAttrs ''fill'')
              then (case d3_color_of (get_attr resolvedAttrs ''fill'') of
                      None \<Rightarrow> (path @ fst stroked, Some TypeError)
                    | Some fillColor \<Rightarrow>
                        (path @ fst stroked @
                         [FillStyle
                            (if truthy (get_attr resolvedAttrs ''opacity'')
                             then fillColor\<lparr>opacity := get_attr resolvedAttrs ''opacity''\<rparr>
                             else fillColor),
                          Fill], None))
              else (path @ fst stroked, None)))"

text \<open>
  \<open>data.forEach\<close>, from the point with the index \<open>index\<close> on: an exception in the callback
  ends the loop.
\<close>

fun forEach_point ::
  "(jsval \<Rightarrow> 'ch d3_color option) \<Rightarrow> (string \<times> ('d \<Rightarrow> nat \<Rightarrow> jsval)) list \<Rightarrow> 'd list \<Rightarrow> nat \<Rightarrow>
   'ch canvas_call list \<times> thrown option" where
  "forEach_point d3_color_of attrToAppliedProjector [] index = ([], None)"
| "forEach_point d3_color_of attrToAppliedProjector (point # rest) index =
     (case draw_point d3_color_of attrToAppliedProjector point index of
        (calls, Some e) \<Rightarrow> (calls, Some e)
      | (calls, None) \<Rightarrow>
          (case forEach_point d3_color_of attrToAppliedProjector rest (index + 1) of
             (later, result) \<Rightarrow> (calls @ later, result)))"

definition canvasDraw ::
  "(jsval \<Rightarrow> 'ch d3_color option) \<Rightarrow> 'd list \<Rightarrow> (string \<times> ('d \<Rightarrow> nat \<Rightarrow> jsval)) list \<Rightarrow>
   'ch canvas_call list \<times> thrown option" where
  "canvasDraw d3_color_of data attrToAppliedProjector =
     forEach_point d3_color_of attrToAppliedProjector data 0"

text \<open>
  A \<open>d3.color\<close> to evaluate the drawer with: it knows the colour names red and blue, both
  opaque, and gives \<open>null\<close> for everything else. The channels are red, green and blue.
\<close>

definition example_d3_color :: "jsval \<Rightarrow> (nat \<times> nat \<times> nat) d3_color option" where
  "example_d3_color v =
     (if v = Str ''red'' then Some \<lparr>channels = (255, 0, 0), opacity = Num 1\<rparr>
      else if v = Str ''blue'' then Some \<lparr>channels = (0, 0, 255), opacity = Num 1\<rparr>
      else None)"

text \<open>
  Projectors for data that are numbers: a rect at the datum, 10 wide and 5 high, filled
  red, with the opacity \<open>a\<close>.
\<close>

definition red_rects :: "number \<Rightarrow> (string \<times> (number \<Rightarrow> nat \<Rightarrow> jsval)) list" where
  "red_rects a =
     [(''x'', \<lambda>d i. Num d), (''y'', \<lambda>d i. Num (of_nat i)),
      (''width'', \<lambda>d i. Num 10), (''height'', \<lambda>d i. Num 5),
      (''fill'', \<lambda>d i. Str ''red''), (''opacity'', \<lambda>d i. Num a)]"

section \<open>Tick values\<close>

lemma getTickValues_filter:
  "getTickValues ax =
     filter (\<lambda>v. min (fst (domain (scale_field ax))) (snd (domain (scale_field ax))) \<le> v \<and>
                 v \<le> max (fst (domain (scale_field ax))) (snd (domain (scale_field ax))))
       (ticks (scale_field ax))"
  unfolding getTickValues_def Let_def min_def max_def
  by (rule filter_cong) auto

lemma getTickValues_set:
  "set (getTickValues ax) =
     {v \<in> set (ticks (scale_field ax)).
        min (fst (domain (scale_field ax))) (snd (domain (scale_field ax))) \<le> v \<and>
        v \<le> max (fst (domain (scale_field ax))) (snd (domain (scale_field ax)))}"
  by (simp add: getTickValues_filter)

lemma getTickValues_example: "getTickValues (example_axis Left) = [0, 5, 10]"
  by (simp add: getTickValues_def example_axis_def)

text \<open>
  C7. For a scale whose domain is \<open>[d0, d1]\<close>, in either order, and whose ticks are \<open>ts\<close>,
  \<open>_getTickValues\<close> returns the ticks \<open>v\<close> of \<open>ts\<close> with \<open>min d0 d1 \<le> v \<le> max d0 d1\<close>, each as
  often as the scale produced it and in the scale's order: it is \<open>ts\<close> filtered by that
  test, so no tick inside the interval is dropped and none outside it is kept. Swapping
  the two ends of the domain gives the same list.
\<close>

theorem getTickValues_normalized_domain:
  "getTickValues (ax\<lparr>scale_field := \<lparr>domain = (d0, d1), ticks = ts\<rparr>\<rparr>) =
     filter (\<lambda>v. min d0 d1 \<le> v \<and> v \<le> max d0 d1) ts
   \<and> getTickValues (ax\<lparr>scale_field := \<lparr>domain = (d1, d0), ticks = ts\<rparr>\<rparr>) =
     getTickValues (ax\<lparr>scale_field := \<lparr>domain = (d0, d1), ticks = ts\<rparr>\<rparr>)"
proof -
  have swap: "(\<lambda>v. min d1 d0 \<le> v \<and> v \<le> max d1 d0) = (\<lambda>v. min d0 d1 \<le> v \<and> v \<le> max d0 d1)"
    by (simp add: min.commute max.commute)
  show ?thesis
    by (simp add: getTickValues_filter swap)
qed

section \<open>Rescaling\<close>

lemma computeWidth_example: "computeWidth (example_axis orient) = 29"
  by (simp add: computeWidth_def computeExactTextWidth_def Utils_Math_max_def
      getTickValues_def example_axis_def)

lemma rescale_not_setup: "\<not> isSetup ax \<Longrightarrow> rescale ax = []"
  by (simp add: rescale_def)

lemma rescale_horizontal: "isSetup ax \<Longrightarrow> isHorizontal ax \<Longrightarrow> rescale ax = [Render]"
  by (simp add: rescale_def)

text \<open>
  C8. On a set-up axis that is not horizontal, \<open>_rescale\<close> calls \<open>redraw()\<close>, and nothing
  else, exactly when the recomputed width is above the current width or below the
  current width minus the margin, and calls \<open>render()\<close>, and nothing else, otherwise. On a
  set-up horizontal axis it calls \<open>render()\<close> whatever the widths are.
\<close>

theorem rescale_redraw_iff:
  "isSetup ax \<Longrightarrow>
   rescale ax =
     (if isHorizontal ax then [Render]
      else if computeWidth ax > width_field ax \<or> computeWidth ax < width_field ax - margin ax
           then [Redraw]
           else [Render])"
  by (simp add: rescale_def Let_def)

theorem rescale_redraw_iff_witness:
  "rescale (example_axis Left) = [Render]
   \<and> rescale ((example_axis Left)\<lparr>width_field := 20\<rparr>) = [Redraw]
   \<and> rescale ((example_axis Right)\<lparr>width_field := 50\<rparr>) = [Redraw]
   \<and> rescale ((example_axis Right)\<lparr>width_field := 44\<rparr>) = [Render]
   \<and> rescale ((example_axis Top)\<lparr>width_field := 20\<rparr>) = [Render]
   \<and> rescale ((example_axis Bottom)\<lparr>width_field := 50\<rparr>) = [Render]"
proof -
  have w: "computeWidth ((example_axis orient)\<lparr>width_field := x\<rparr>) = 29" for orient x
    by (simp add: computeWidth_def computeExactTextWidth_def Utils_Math_max_def
        getTickValues_def example_axis_def)
  have s: "isSetup ((example_axis orient)\<lparr>width_field := x\<rparr>)" for orient x
    by (simp add: example_axis_def)
  have s0: "isSetup (example_axis Left)"
    by (simp add: example_axis_def)
  have f: "width_field ((example_axis orient)\<lparr>width_field := x\<rparr>) = x
           \<and> margin ((example_axis orient)\<lparr>width_field := x\<rparr>) = 15
           \<and> orientation ((example_axis orient)\<lparr>width_field := x\<rparr>) = orient" for orient x
    by (simp add: example_axis_def)
  have f0: "width_field (example_axis Left) = 30 \<and> margin (example_axis Left) = 15
            \<and> orientation (example_axis Left) = Left"
    by (simp add: example_axis_def)
  show ?thesis
    using rescale_redraw_iff [OF s0]
      rescale_redraw_iff [OF s [where orient = Left and x = 20]]
      rescale_redraw_iff [OF s [where orient = Right and x = 50]]
      rescale_redraw_iff [OF s [where orient = Right and x = 44]]
      rescale_redraw_iff [OF s [where orient = Top and x = 20]]
      rescale_redraw_iff [OF s [where orient = Bottom and x = 50]]
    by (simp add: w computeWidth_example f f0 isHorizontal_def)
qed

section \<open>Setting the tick label position\<close>

lemma tickLabelPosition_getter:
  "tickLabelPosition None ax = (Position (tickLabelPositioning ax), ax, [])"
  by (simp add: tickLabelPosition_def)

lemma tickLabelPosition_valid:
  "toLowerCase p \<in> set (valid_positions (isHorizontal ax)) \<Longrightarrow>
   tickLabelPosition (Some p) ax =
     (This, ax\<lparr>tickLabelPositioning := toLowerCase p\<rparr>, [Redraw])"
  by (cases "isHorizontal ax") (auto simp add: tickLabelPosition_def valid_positions_def Let_def)

text \<open>
  C6. When the lower-cased position is not one of the positions valid for the axis's
  orientation (left, center, right for a horizontal axis; top, center, bottom for a
  vertical one), the setter throws an error whose message is the lower-cased position
  followed by the orientation it is not valid for; the axis after the call is the axis
  before it, the stored tick-label positioning included, and no redraw was requested.
\<close>

theorem tickLabelPosition_invalid_throws:
  "toLowerCase p \<notin> set (valid_positions (isHorizontal ax)) \<Longrightarrow>
   tickLabelPosition (Some p) ax =
     (Threw (Error (toLowerCase p @ '' is not a valid tick label position for a '' @
                    (if isHorizontal ax then ''horizontal'' else ''vertical'') @
                    '' NumericAxis'')),
      ax, [])"
  by (cases "isHorizontal ax") (auto simp add: tickLabelPosition_def valid_positions_def Let_def)

theorem tickLabelPosition_invalid_throws_witness:
  "tickLabelPosition (Some ''Top'') (example_axis Top) =
     (Threw (Error ''top is not a valid tick label position for a horizontal NumericAxis''),
      example_axis Top, [])
   \<and> tickLabelPosition (Some ''LEFT'') (example_axis Left) =
     (Threw (Error ''left is not a valid tick label position for a vertical NumericAxis''),
      example_axis Left, [])"
proof -
  have h: "isHorizontal (example_axis Top)" "\<not> isHorizontal (example_axis Left)"
    by (simp_all add: isHorizontal_def example_axis_def)
  have l: "toLowerCase ''Top'' = ''top''" "toLowerCase ''LEFT'' = ''left''"
    by (simp_all add: toLowerCase_def lower_char_def)
  have a: "toLowerCase ''Top'' \<notin> set (valid_positions (isHorizontal (example_axis Top)))"
    by (simp add: h l valid_positions_def)
  have b: "toLowerCase ''LEFT'' \<notin> set (valid_positions (isHorizontal (example_axis Left)))"
    by (simp add: h l valid_positions_def)
  show ?thesis
    using tickLabelPosition_invalid_throws [OF a] tickLabelPosition_invalid_throws [OF b]
    by (simp add: h l)
qed

section \<open>Hiding overlapping tick labels\<close>

lemma overlap_loop_returns:
  assumes "0 < interval"
  shows "overlap_loop utils interval rs i =
           Some (\<forall>k. i + (k + 1) * interval < length rs \<longrightarrow>
                   \<not> clientRectsOverlap utils (rs ! (i + k * interval)) (rs ! (i + (k + 1) * interval)))"
proof (induction "length rs - i" arbitrary: i rule: less_induct)
  case less
  let ?P = "\<lambda>i k. i + (k + 1) * interval < length rs \<longrightarrow>
                   \<not> clientRectsOverlap utils (rs ! (i + k * interval)) (rs ! (i + (k + 1) * interval))"
  show ?case
  proof (cases "i + interval < length rs")
    case False
    then have "\<And>k. \<not> i + (k + 1) * interval < length rs"
      by (simp add: trans_le_add1 add.commute)
    then have "\<forall>k. ?P i k" by blast
    moreover have "overlap_loop utils interval rs i = Some True"
      using False by (subst overlap_loop.simps) auto
    ultimately show ?thesis by simp
  next
    case True
    show ?thesis
    proof (cases "clientRectsOverlap utils (rs ! i) (rs ! (i + interval))")
      case ov: True
      have "\<not> ?P i 0" using True ov by simp
      then have "\<not> (\<forall>k. ?P i k)" by blast
      moreover have "overlap_loop utils interval rs i = Some False"
        using True ov by (subst overlap_loop.simps) auto
      ultimately show ?thesis by simp
    next
      case nov: False
      have step: "overlap_loop utils interval rs i = overlap_loop utils interval rs (i + interval)"
        using True nov by (subst overlap_loop.simps) auto
      have "length rs - (i + interval) < length rs - i"
        using True assms by arith
      then have ih: "overlap_loop utils interval rs (i + interval) = Some (\<forall>k. ?P (i + interval) k)"
        by (rule less)
      have shift: "?P (i + interval) k = ?P i (Suc k)" for k
        by (simp add: add.assoc add.commute add.left_commute)
      have "(\<forall>k. ?P i k) = (?P i 0 \<and> (\<forall>k. ?P i (Suc k)))"
        by (metis not0_implies_Suc)
      also have "\<dots> = (\<forall>k. ?P (i + interval) k)"
        using True nov shift by simp
      finally show ?thesis using step ih by simp
    qed
  qed
qed

lemma hasOverlapWithInterval_returns:
  assumes "0 < interval"
  shows "hasOverlapWithInterval utils ax interval rects =
           Some (no_tested_overlap utils (overlap_padding ax) interval rects)"
proof -
  let ?rs = "map (\<lambda>rect. expandRect utils rect (overlap_padding ax)) rects"
  have nth: "?rs ! (k * interval) = expandRect utils (rects ! (k * interval)) (overlap_padding ax)
             \<and> ?rs ! ((k + 1) * interval) =
               expandRect utils (rects ! ((k + 1) * interval)) (overlap_padding ax)"
    if "(k + 1) * interval < length rects" for k
  proof -
    have "k * interval < length rects" using that by simp
    then show ?thesis using that by simp
  qed
  have "(\<forall>k. 0 + (k + 1) * interval < length ?rs \<longrightarrow>
            \<not> clientRectsOverlap utils (?rs ! (0 + k * interval)) (?rs ! (0 + (k + 1) * interval)))
        = no_tested_overlap utils (overlap_padding ax) interval rects"
    unfolding no_tested_overlap_def using nth by auto
  then show ?thesis
    unfolding hasOverlapWithInterval_def Let_def
    by (simp only: overlap_loop_returns [OF assms])
qed

lemma no_tested_overlap_beyond:
  "length rects \<le> interval \<Longrightarrow> no_tested_overlap utils padding interval rects"
  unfolding no_tested_overlap_def
proof (intro allI impI)
  fix k assume a: "length rects \<le> interval" "(k + 1) * interval < length rects"
  have "interval \<le> (k + 1) * interval" by simp
  with a show "\<not> clientRectsOverlap utils (expandRect utils (rects ! (k * interval)) padding)
                  (expandRect utils (rects ! ((k + 1) * interval)) padding)"
    by linarith
qed

lemma interval_search_least:
  assumes "1 \<le> interval"
  shows "\<exists>k. interval_search utils ax rects interval = Some k \<and> interval \<le> k
             \<and> (k = interval \<or> k \<le> length rects)
             \<and> no_tested_overlap utils (overlap_padding ax) k rects
             \<and> (\<forall>j. interval \<le> j \<and> j < k \<longrightarrow>
                    \<not> no_tested_overlap utils (overlap_padding ax) j rects)"
  using assms
proof (induction utils ax rects interval rule: interval_search.induct)
  case (1 utils ax rects interval)
  let ?ok = "\<lambda>j. no_tested_overlap utils (overlap_padding ax) j rects"
  have h: "hasOverlapWithInterval utils ax interval rects = Some (?ok interval)"
    using "1.prems" by (simp add: hasOverlapWithInterval_returns)
  show ?case
  proof (cases "\<not> ?ok interval \<and> interval < length rects")
    case True
    then have step: "interval_search utils ax rects interval =
                     interval_search utils ax rects (interval + 1)"
      using h by (subst interval_search.simps) simp
    from "1.IH" [OF h] True "1.prems"
    obtain k where k: "interval_search utils ax rects (interval + 1) = Some k"
        "interval + 1 \<le> k" "k = interval + 1 \<or> k \<le> length rects" "?ok k"
        "\<forall>j. interval + 1 \<le> j \<and> j < k \<longrightarrow> \<not> ?ok j"
      by auto
    have "\<forall>j. interval \<le> j \<and> j < k \<longrightarrow> \<not> ?ok j"
    proof (intro allI impI)
      fix j assume j: "interval \<le> j \<and> j < k"
      show "\<not> ?ok j"
      proof (cases "j = interval")
        case True then show ?thesis using \<open>\<not> ?ok interval \<and> interval < length rects\<close> by simp
      next
        case False then show ?thesis using j k(5) by simp
      qed
    qed
    moreover have "k \<le> length rects" using k(3) True by auto
    ultimately show ?thesis using step k by auto
  next
    case False
    then have stop: "interval_search utils ax rects interval = Some interval"
      using h by (subst interval_search.simps) auto
    have "?ok interval"
      using False no_tested_overlap_beyond [of rects interval utils "overlap_padding ax"] by auto
    then show ?thesis using stop by auto
  qed
qed

text \<open>The test on every pair \<open>interval\<close> apart asks for more than the test of the source.\<close>

lemma no_overlap_interval_apart_tested:
  assumes "no_overlap_interval_apart utils padding interval rects"
  shows "no_tested_overlap utils padding interval rects"
  unfolding no_tested_overlap_def
proof (intro allI impI)
  fix k assume "(k + 1) * interval < length rects"
  then have "k * interval + interval < length rects"
    by (simp add: add.commute)
  with assms have "\<not> clientRectsOverlap utils (expandRect utils (rects ! (k * interval)) padding)
                     (expandRect utils (rects ! (k * interval + interval)) padding)"
    unfolding no_overlap_interval_apart_def by blast
  then show "\<not> clientRectsOverlap utils (expandRect utils (rects ! (k * interval)) padding)
                     (expandRect utils (rects ! ((k + 1) * interval)) padding)"
    by (simp add: add.commute)
qed

lemma length_each_shown: "length (each_shown interval tickLabels i) = length tickLabels"
  by (induction tickLabels arbitrary: i) auto

lemma each_shown_nth:
  "p < length tickLabels \<Longrightarrow>
   each_shown interval tickLabels i ! p =
     (if is_shown (tickLabels ! p) \<and> (i + shown_index tickLabels p) mod interval \<noteq> 0
      then (tickLabels ! p)\<lparr>visibility := ''hidden''\<rparr>
      else tickLabels ! p)"
proof (induction tickLabels arbitrary: i p)
  case Nil
  then show ?case by simp
next
  case (Cons l ls)
  show ?case
  proof (cases p)
    case 0
    then show ?thesis by (simp add: shown_index_def)
  next
    case (Suc q)
    then have q: "q < length ls" using Cons.prems by simp
    show ?thesis
      using Cons.IH [OF q, of "i + 1"] Cons.IH [OF q, of i] Suc
      by (simp add: shown_index_def)
  qed
qed

lemma hidden_not_shown: "\<not> is_shown (l\<lparr>visibility := ''hidden''\<rparr>)"
  by (simp add: is_shown_def)

lemmas eval_overlap = interval_search.simps hasOverlapWithInterval_def overlap_padding_def
  example_axis_def spec_DOM_def overlap_loop.simps label_at_def hideOverlappingTickLabels_def
  is_shown_def

lemma hideOverlappingTickLabels_returns:
  "\<exists>interval.
     hideOverlappingTickLabels utils ax tickLabels = Some (each_shown interval tickLabels 0)
     \<and> interval_search utils ax (map boundingClientRect (filter is_shown tickLabels)) 1
         = Some interval"
proof -
  obtain k where
    "interval_search utils ax (map boundingClientRect (filter is_shown tickLabels)) 1 = Some k"
    using interval_search_least [of 1 utils ax] by blast
  then show ?thesis
    by (simp add: hideOverlappingTickLabels_def)
qed

text \<open>
  C1, as amended. The pass always returns. The padding is the tick-label padding in
  "center" mode and 3 times it otherwise. With \<open>rects\<close> the rects of the shown labels in
  tick order, the interval it settles on is the least \<open>interval \<ge> 1\<close> for which no two
  padded rects at the positions \<open>k * interval\<close> and \<open>(k + 1) * interval\<close> overlap; every
  smaller interval had such an overlapping pair; the interval is 1 or at most the number
  of rects. After the pass a label is shown exactly when it was shown before and its
  index among the shown labels is a multiple of the interval; every other label that was
  shown has its visibility set to hidden, and nothing else changes.
\<close>

theorem hideOverlappingTickLabels_interval:
  "\<exists>interval.
     hideOverlappingTickLabels utils ax tickLabels = Some (each_shown interval tickLabels 0)
     \<and> interval_search utils ax (map boundingClientRect (filter is_shown tickLabels)) 1
         = Some interval
     \<and> overlap_padding ax =
         (if tickLabelPositioning ax = ''center'' then tickLabelPadding ax
          else 3 * tickLabelPadding ax)
     \<and> 1 \<le> interval
     \<and> (interval = 1 \<or> interval \<le> length (filter is_shown tickLabels))
     \<and> no_tested_overlap utils (overlap_padding ax) interval
          (map boundingClientRect (filter is_shown tickLabels))
     \<and> (\<forall>j. 1 \<le> j \<and> j < interval \<longrightarrow>
            \<not> no_tested_overlap utils (overlap_padding ax) j
                (map boundingClientRect (filter is_shown tickLabels)))
     \<and> length (each_shown interval tickLabels 0) = length tickLabels
     \<and> (\<forall>p. p < length tickLabels \<longrightarrow>
            is_shown (each_shown interval tickLabels 0 ! p) =
              (is_shown (tickLabels ! p) \<and> shown_index tickLabels p mod interval = 0)
            \<and> each_shown interval tickLabels 0 ! p =
              (if is_shown (tickLabels ! p) \<and> shown_index tickLabels p mod interval \<noteq> 0
               then (tickLabels ! p)\<lparr>visibility := ''hidden''\<rparr>
               else tickLabels ! p))"
proof -
  let ?rects = "map boundingClientRect (filter is_shown tickLabels)"
  obtain k where k: "interval_search utils ax ?rects 1 = Some k" "1 \<le> k"
      "k = 1 \<or> k \<le> length ?rects"
      "no_tested_overlap utils (overlap_padding ax) k ?rects"
      "\<forall>j. 1 \<le> j \<and> j < k \<longrightarrow> \<not> no_tested_overlap utils (overlap_padding ax) j ?rects"
    using interval_search_least [of 1 utils ax ?rects] by blast
  have res: "hideOverlappingTickLabels utils ax tickLabels = Some (each_shown k tickLabels 0)"
    using k(1) by (simp add: hideOverlappingTickLabels_def)
  have pad: "overlap_padding ax =
      (if tickLabelPositioning ax = ''center'' then tickLabelPadding ax
       else 3 * tickLabelPadding ax)"
    by (simp add: overlap_padding_def)
  have nth: "each_shown k tickLabels 0 ! p =
      (if is_shown (tickLabels ! p) \<and> shown_index tickLabels p mod k \<noteq> 0
       then (tickLabels ! p)\<lparr>visibility := ''hidden''\<rparr>
       else tickLabels ! p)" if "p < length tickLabels" for p
    using each_shown_nth [OF that, of k 0] by simp
  have shown: "is_shown (each_shown k tickLabels 0 ! p) =
      (is_shown (tickLabels ! p) \<and> shown_index tickLabels p mod k = 0)"
    if "p < length tickLabels" for p
    using nth [OF that] hidden_not_shown by auto
  show ?thesis
    using res pad k length_each_shown nth shown
    by (intro exI [of _ k]) simp
qed

theorem hideOverlappingTickLabels_interval_witness:
  "hideOverlappingTickLabels spec_DOM edge_axis wide_labels =
     Some [label_at 0 10 0 10, (label_at 4 14 0 10)\<lparr>visibility := ''hidden''\<rparr>,
           (label_at 8 40 0 10)\<lparr>visibility := ''hidden''\<rparr>, label_at 20 30 0 10,
           (label_at 44 54 0 10)\<lparr>visibility := ''hidden''\<rparr>]
   \<and> overlap_padding edge_axis = 3
   \<and> no_tested_overlap spec_DOM 3 2 (map boundingClientRect (filter is_shown wide_labels))
   \<and> \<not> no_tested_overlap spec_DOM 3 1 (map boundingClientRect (filter is_shown wide_labels))"
proof -
  let ?rects = "map boundingClientRect (filter is_shown wide_labels)"
  have pad: "overlap_padding edge_axis = 3"
    by (simp add: overlap_padding_def edge_axis_def example_axis_def)
  have search: "interval_search spec_DOM edge_axis ?rects 1 = Some 2"
    by (simp add: eval_overlap edge_axis_def wide_labels_def)
  have each: "each_shown 2 wide_labels 0 =
      [label_at 0 10 0 10, (label_at 4 14 0 10)\<lparr>visibility := ''hidden''\<rparr>,
       (label_at 8 40 0 10)\<lparr>visibility := ''hidden''\<rparr>, label_at 20 30 0 10,
       (label_at 44 54 0 10)\<lparr>visibility := ''hidden''\<rparr>]"
    by (simp add: wide_labels_def label_at_def is_shown_def mod_Suc)
  obtain k where k: "hideOverlappingTickLabels spec_DOM edge_axis wide_labels =
        Some (each_shown k wide_labels 0)"
      "interval_search spec_DOM edge_axis ?rects 1 = Some k"
      "no_tested_overlap spec_DOM (overlap_padding edge_axis) k ?rects"
      "\<forall>j. 1 \<le> j \<and> j < k \<longrightarrow> \<not> no_tested_overlap spec_DOM (overlap_padding edge_axis) j ?rects"
    using hideOverlappingTickLabels_interval [of spec_DOM edge_axis wide_labels] by blast
  have k2: "k = 2" using k(2) search by simp
  have "\<not> no_tested_overlap spec_DOM (overlap_padding edge_axis) 1 ?rects"
    using k(4) k2 by simp
  then show ?thesis
    using k(1,3) k2 pad each by simp
qed

text \<open>
  The claim as the spec words it has the pass test every pair of rects \<open>interval\<close> apart.
  On four rects spanning \<open>[0,10]\<close>, \<open>[8,40]\<close>, \<open>[20,30]\<close> and \<open>[42,52]\<close> with padding 2 the
  pass settles on interval 2, its test at 2 having looked at the rects 0 and 2 only,
  although the rects 1 and 3, which are 2 apart, overlap once padded.
\<close>

theorem every_pair_interval_apart_counterexample:
  "interval_search spec_DOM center_axis wide_rects 1 = Some 2
   \<and> hasOverlapWithInterval spec_DOM center_axis 2 wide_rects = Some True
   \<and> overlap_padding center_axis = 2
   \<and> clientRectsOverlap spec_DOM (expandRect spec_DOM (wide_rects ! 1) 2)
                                  (expandRect spec_DOM (wide_rects ! 3) 2)
   \<and> \<not> no_overlap_interval_apart spec_DOM (overlap_padding center_axis) 2 wide_rects"
proof -
  have pad: "overlap_padding center_axis = 2"
    by (simp add: overlap_padding_def center_axis_def example_axis_def)
  have search: "interval_search spec_DOM center_axis wide_rects 1 = Some 2"
    by (simp add: eval_overlap center_axis_def wide_rects_def)
  have accepted: "hasOverlapWithInterval spec_DOM center_axis 2 wide_rects = Some True"
    by (simp add: eval_overlap center_axis_def wide_rects_def)
  have ov: "clientRectsOverlap spec_DOM (expandRect spec_DOM (wide_rects ! 1) 2)
                                  (expandRect spec_DOM (wide_rects ! 3) 2)"
    by (simp add: wide_rects_def spec_DOM_def label_at_def)
  have "\<not> (1 + 2 < length wide_rects \<longrightarrow>
          \<not> clientRectsOverlap spec_DOM (expandRect spec_DOM (wide_rects ! 1) 2)
                                  (expandRect spec_DOM (wide_rects ! (1 + 2)) 2))"
    using ov by (simp add: wide_rects_def)
  then have "\<not> no_overlap_interval_apart spec_DOM 2 2 wide_rects"
    unfolding no_overlap_interval_apart_def by blast
  then show ?thesis
    using pad search accepted ov by simp
qed

text \<open>
  C2. On four shown labels spanning \<open>[0,10]\<close>, \<open>[8,18]\<close>, \<open>[20,30]\<close> and \<open>[40,50]\<close> across (on
  any common line) and a padding of 2, the search settles on interval 2: the padded
  rects 0 and 1 overlap, so the test fails at interval 1, and it passes at interval 2.
  The pass hides the labels 1 and 3 and leaves the labels 0 and 2, the multiples of 2,
  shown.
\<close>

theorem spec_example_selects_interval_two:
  assumes "t \<le> b" and "overlap_padding ax = 2"
  shows "interval_search spec_DOM ax (map boundingClientRect (spec_example_labels t b)) 1 = Some 2
   \<and> clientRectsOverlap spec_DOM
        (expandRect spec_DOM (boundingClientRect (spec_example_labels t b ! 0)) 2)
        (expandRect spec_DOM (boundingClientRect (spec_example_labels t b ! 1)) 2)
   \<and> hasOverlapWithInterval spec_DOM ax 1 (map boundingClientRect (spec_example_labels t b))
        = Some False
   \<and> hasOverlapWithInterval spec_DOM ax 2 (map boundingClientRect (spec_example_labels t b))
        = Some True
   \<and> hideOverlappingTickLabels spec_DOM ax (spec_example_labels t b) =
        Some [label_at 0 10 t b, (label_at 8 18 t b)\<lparr>visibility := ''hidden''\<rparr>,
              label_at 20 30 t b, (label_at 40 50 t b)\<lparr>visibility := ''hidden''\<rparr>]
   \<and> map is_shown (the (hideOverlappingTickLabels spec_DOM ax (spec_example_labels t b))) =
        [True, False, True, False]"
proof -
  have tb: "t - 2 < b + 2" using assms(1) by simp
  have pad: "hasOverlapWithInterval spec_DOM ax interval rects =
      overlap_loop spec_DOM interval (map (\<lambda>rect. expandRect spec_DOM rect 2) rects) 0"
    for interval rects
    by (simp add: hasOverlapWithInterval_def assms(2))
  have one: "hasOverlapWithInterval spec_DOM ax 1 (map boundingClientRect (spec_example_labels t b))
        = Some False"
    unfolding pad using tb
    by (simp add: spec_example_labels_def label_at_def spec_DOM_def overlap_loop.simps)
  have two: "hasOverlapWithInterval spec_DOM ax 2 (map boundingClientRect (spec_example_labels t b))
        = Some True"
    unfolding pad using tb
    by (simp add: spec_example_labels_def label_at_def spec_DOM_def overlap_loop.simps)
  have len: "length (map boundingClientRect (spec_example_labels t b)) = 4"
    by (simp add: spec_example_labels_def)
  have search: "interval_search spec_DOM ax (map boundingClientRect (spec_example_labels t b)) 1
        = Some 2"
  proof -
    let ?R = "map boundingClientRect (spec_example_labels t b)"
    have "interval_search spec_DOM ax ?R 1 = interval_search spec_DOM ax ?R (1 + 1)"
      unfolding interval_search.simps [of spec_DOM ax ?R 1] one using len by simp
    also have "\<dots> = interval_search spec_DOM ax ?R 2"
      by (simp only: one_add_one)
    also have "\<dots> = Some 2"
      unfolding interval_search.simps [of spec_DOM ax ?R 2] two by simp
    finally show ?thesis .
  qed
  have ov: "clientRectsOverlap spec_DOM
        (expandRect spec_DOM (boundingClientRect (spec_example_labels t b ! 0)) 2)
        (expandRect spec_DOM (boundingClientRect (spec_example_labels t b ! 1)) 2)"
    using tb by (simp add: spec_example_labels_def label_at_def spec_DOM_def)
  have shown: "filter is_shown (spec_example_labels t b) = spec_example_labels t b"
    by (simp add: spec_example_labels_def label_at_def is_shown_def)
  have each: "each_shown 2 (spec_example_labels t b) 0 =
        [label_at 0 10 t b, (label_at 8 18 t b)\<lparr>visibility := ''hidden''\<rparr>,
         label_at 20 30 t b, (label_at 40 50 t b)\<lparr>visibility := ''hidden''\<rparr>]"
    by (simp add: spec_example_labels_def label_at_def is_shown_def mod_Suc)
  have hide: "hideOverlappingTickLabels spec_DOM ax (spec_example_labels t b) =
        Some [label_at 0 10 t b, (label_at 8 18 t b)\<lparr>visibility := ''hidden''\<rparr>,
              label_at 20 30 t b, (label_at 40 50 t b)\<lparr>visibility := ''hidden''\<rparr>]"
    unfolding hideOverlappingTickLabels_def Let_def shown search
    by (simp add: each)
  have vis: "map is_shown [label_at 0 10 t b, (label_at 8 18 t b)\<lparr>visibility := ''hidden''\<rparr>,
              label_at 20 30 t b, (label_at 40 50 t b)\<lparr>visibility := ''hidden''\<rparr>] =
        [True, False, True, False]"
    by (simp add: label_at_def is_shown_def)
  show ?thesis
    using search ov one two hide vis by simp
qed

theorem spec_example_selects_interval_two_witness:
  "interval_search spec_DOM center_axis (map boundingClientRect (spec_example_labels 0 12)) 1 = Some 2
   \<and> hideOverlappingTickLabels spec_DOM center_axis (spec_example_labels 0 12) =
        Some [label_at 0 10 0 12, (label_at 8 18 0 12)\<lparr>visibility := ''hidden''\<rparr>,
              label_at 20 30 0 12, (label_at 40 50 0 12)\<lparr>visibility := ''hidden''\<rparr>]"
proof -
  have a: "(0::real) \<le> 12" by simp
  have b: "overlap_padding center_axis = 2"
    by (simp add: overlap_padding_def center_axis_def example_axis_def)
  show ?thesis
    using spec_example_selects_interval_two [OF a b] by simp
qed

section \<open>The projections a Grid plot derives\<close>

lemma project_other:
  "attrToSet \<noteq> ''x'' \<Longrightarrow> attrToSet \<noteq> ''y'' \<Longrightarrow> attrToSet \<noteq> ''fill'' \<Longrightarrow>
   project \<sigma> attrToSet accessor scale plot = Plot_project attrToSet accessor scale plot"
  by (subst project.simps) (simp add: Let_def)

lemma project_x_category:
  assumes "\<sigma> s = Category c"
  shows "project \<sigma> ''x'' accessor (Some s) plot =
           Plot_project ''x2'' (BandEnd ''x'' s) None
             (Plot_project ''x1'' (BandStart ''x'' s) None
                (Plot_project ''x'' accessor (Some s) plot))"
  using assms
  by (subst project.simps)
     (simp add: Let_def project_other instanceof_Category_def instanceof_AbstractQuantitative_def)

lemma project_y_category:
  assumes "\<sigma> s = Category c"
  shows "project \<sigma> ''y'' accessor (Some s) plot =
           Plot_project ''y2'' (BandEnd ''y'' s) None
             (Plot_project ''y1'' (BandStart ''y'' s) None
                (Plot_project ''y'' accessor (Some s) plot))"
  using assms
  by (subst project.simps)
     (simp add: Let_def project_other instanceof_Category_def instanceof_AbstractQuantitative_def)

lemma call_Accessor: "call_accessor ps \<sigma> (Accessor f) d i = Some (f d i)"
  by (subst call_accessor.simps) simp

lemma call_BandStart:
  assumes "ps attr = Some p" "p_accessor p = Accessor f" "\<sigma> s = Category c"
  shows "call_accessor ps \<sigma> (BandStart attr s) d i =
           Some (Num (Category_scale c (f d i) - rangeBand c / 2))"
  using assms
  by (subst call_accessor.simps) (simp add: call_Accessor Scale_scale_def)

lemma call_BandEnd:
  assumes "ps attr = Some p" "p_accessor p = Accessor f" "\<sigma> s = Category c"
  shows "call_accessor ps \<sigma> (BandEnd attr s) d i =
           Some (Num (Category_scale c (f d i) + rangeBand c / 2))"
  using assms
  by (subst call_accessor.simps) (simp add: call_Accessor Scale_scale_def)

text \<open>
  C3. Let a Grid plot project \<open>x\<close> with an accessor and a scale that is a category scale.
  Whenever the derived projections are evaluated afterwards, with \<open>c\<close> the state of that
  scale at the time, the \<open>x1\<close> projection of a datum \<open>d\<close> at index \<open>i\<close> is
  \<open>c.scale(accessor(d, i)) - c.rangeBand() / 2\<close> and the \<open>x2\<close> projection is
  \<open>c.scale(accessor(d, i)) + c.rangeBand() / 2\<close>. The same holds for \<open>y\<close>, \<open>y1\<close> and \<open>y2\<close>.
\<close>

theorem Grid_project_category_band:
  assumes "\<tau> s = Category c'" and "\<sigma> s = Category c"
  shows "projector (project \<tau> ''x'' (Accessor f) (Some s) plot) \<sigma> ''x1'' d i =
           Some (Num (Category_scale c (f d i) - rangeBand c / 2))
       \<and> projector (project \<tau> ''x'' (Accessor f) (Some s) plot) \<sigma> ''x2'' d i =
           Some (Num (Category_scale c (f d i) + rangeBand c / 2))
       \<and> projector (project \<tau> ''y'' (Accessor f) (Some s) plot) \<sigma> ''y1'' d i =
           Some (Num (Category_scale c (f d i) - rangeBand c / 2))
       \<and> projector (project \<tau> ''y'' (Accessor f) (Some s) plot) \<sigma> ''y2'' d i =
           Some (Num (Category_scale c (f d i) + rangeBand c / 2))"
proof -
  let ?px = "projections (project \<tau> ''x'' (Accessor f) (Some s) plot)"
  let ?py = "projections (project \<tau> ''y'' (Accessor f) (Some s) plot)"
  have px: "?px ''x'' = Some \<lparr>p_accessor = Accessor f, p_scale = Some s\<rparr>"
      "?px ''x1'' = Some \<lparr>p_accessor = BandStart ''x'' s, p_scale = None\<rparr>"
      "?px ''x2'' = Some \<lparr>p_accessor = BandEnd ''x'' s, p_scale = None\<rparr>"
    by (simp_all add: project_x_category [of \<tau> s c', OF assms(1)] Plot_project_def)
  have py: "?py ''y'' = Some \<lparr>p_accessor = Accessor f, p_scale = Some s\<rparr>"
      "?py ''y1'' = Some \<lparr>p_accessor = BandStart ''y'' s, p_scale = None\<rparr>"
      "?py ''y2'' = Some \<lparr>p_accessor = BandEnd ''y'' s, p_scale = None\<rparr>"
    by (simp_all add: project_y_category [of \<tau> s c', OF assms(1)] Plot_project_def)
  have x1: "call_accessor ?px \<sigma> (BandStart ''x'' s) d i =
      Some (Num (Category_scale c (f d i) - rangeBand c / 2))"
    by (rule call_BandStart [where p = "\<lparr>p_accessor = Accessor f, p_scale = Some s\<rparr>" and f = f and c = c])
       (simp_all add: px assms(2))
  have x2: "call_accessor ?px \<sigma> (BandEnd ''x'' s) d i =
      Some (Num (Category_scale c (f d i) + rangeBand c / 2))"
    by (rule call_BandEnd [where p = "\<lparr>p_accessor = Accessor f, p_scale = Some s\<rparr>" and f = f and c = c])
       (simp_all add: px assms(2))
  have y1: "call_accessor ?py \<sigma> (BandStart ''y'' s) d i =
      Some (Num (Category_scale c (f d i) - rangeBand c / 2))"
    by (rule call_BandStart [where p = "\<lparr>p_accessor = Accessor f, p_scale = Some s\<rparr>" and f = f and c = c])
       (simp_all add: py assms(2))
  have y2: "call_accessor ?py \<sigma> (BandEnd ''y'' s) d i =
      Some (Num (Category_scale c (f d i) + rangeBand c / 2))"
    by (rule call_BandEnd [where p = "\<lparr>p_accessor = Accessor f, p_scale = Some s\<rparr>" and f = f and c = c])
       (simp_all add: py assms(2))
  show ?thesis
    by (simp add: projector_def px py x1 x2 y1 y2)
qed

theorem Grid_project_category_band_witness:
  "projector (project example_scales ''x'' (Accessor (\<lambda>d i. Str d)) (Some 0) empty_plot)
     example_scales ''x1'' ''abc'' 0 = Some (Num (285 / 2))
   \<and> projector (project example_scales ''x'' (Accessor (\<lambda>d i. Str d)) (Some 0) empty_plot)
     example_scales ''x2'' ''abc'' 0 = Some (Num (355 / 2))
   \<and> projector (project example_scales ''y'' (Accessor (\<lambda>d i. Str d)) (Some 0) empty_plot)
     (snd (Grid_constructor example_super 0 1 2 example_scales)) ''y1'' ''abcd'' 7
       = Some (Num 175)
   \<and> projector (project example_scales ''y'' (Accessor (\<lambda>d i. Str d)) (Some 0) empty_plot)
     (snd (Grid_constructor example_super 0 1 2 example_scales)) ''y2'' ''abcd'' 7
       = Some (Num 225)"
proof -
  let ?c' = "example_category\<lparr>innerPadding_field := 0, outerPadding_field := 0\<rparr>"
  have a: "example_scales 0 = Category example_category"
    by (simp add: example_scales_def)
  have b: "snd (Grid_constructor example_super 0 1 2 example_scales) 0 = Category ?c'"
    by (simp add: Grid_constructor_def example_super_def example_scales_def
        innerPadding_def outerPadding_def)
  have v: "Category_scale example_category (Str ''abc'') = 160"
      "rangeBand example_category = 35"
      "Category_scale ?c' (Str ''abcd'') = 200" "rangeBand ?c' = 50"
    by (simp_all add: Category_scale_def rangeBand_def example_category_def)
  show ?thesis
    using Grid_project_category_band [where \<tau> = example_scales and \<sigma> = example_scales
          and s = 0 and c' = example_category and c = example_category
          and f = "\<lambda>d i. Str d" and plot = empty_plot and d = "''abc''" and i = 0, OF a a]
      Grid_project_category_band [where \<tau> = example_scales
          and \<sigma> = "snd (Grid_constructor example_super 0 1 2 example_scales)"
          and s = 0 and c' = example_category and c = ?c'
          and f = "\<lambda>d i. Str d" and plot = empty_plot and d = "''abcd''" and i = 7, OF a b]
    by (simp add: v)
qed

section \<open>Adding a dataset to a Grid plot\<close>

lemma addDataset_first:
  "length (datasetKeysInOrder plot) \<noteq> 1 \<Longrightarrow>
   addDataset super_addDataset keyOrDataset dataset plot =
     super_addDataset keyOrDataset dataset plot"
  by (simp add: addDataset_def)

text \<open>
  C4. On a Grid plot that holds one dataset, \<open>addDataset\<close> gives the warning "Only one
  dataset is supported in Grid plots" and returns the plot as it was: no field of the
  plot changes, so the dataset it holds stays and the second one is not added, and
  \<open>super.addDataset\<close> is not called. Nothing is thrown.
\<close>

theorem addDataset_second_rejected:
  "length (datasetKeysInOrder plot) = 1 \<Longrightarrow>
   addDataset super_addDataset keyOrDataset dataset plot =
     (plot, [''Only one dataset is supported in Grid plots''])"
  by (simp add: addDataset_def)

theorem addDataset_second_rejected_witness:
  "addDataset example_addDataset ''second'' (Some [''d'']) (empty_plot\<lparr>datasetKeysInOrder := [''first'']\<rparr>)
     = (empty_plot\<lparr>datasetKeysInOrder := [''first'']\<rparr>,
        [''Only one dataset is supported in Grid plots''])
   \<and> addDataset example_addDataset ''first'' (Some [''d'']) empty_plot
     = (empty_plot\<lparr>datasetKeysInOrder := [''first'']\<rparr>, [])"
proof -
  have one: "length (datasetKeysInOrder (empty_plot\<lparr>datasetKeysInOrder := [''first'']\<rparr>)) = 1"
    by simp
  have first: "addDataset example_addDataset ''first'' (Some [''d'']) empty_plot
     = (empty_plot\<lparr>datasetKeysInOrder := [''first'']\<rparr>, [])"
    by (simp add: addDataset_def example_addDataset_def empty_plot_def)
  show ?thesis
    using addDataset_second_rejected [OF one, of example_addDataset "''second''" "Some [''d'']"] first
    by simp
qed

section \<open>The scales after constructing a Grid plot\<close>

text \<open>
  C10. After the constructor, compared with the scales as the base class's constructor
  left them: the x scale and the y scale, when they are category scales, have their
  inner and outer padding set to 0 and are otherwise as before; an x or y scale of
  another class is unchanged; so is every other scale.
\<close>

theorem Grid_constructor_resets_category_padding:
  assumes "super_constructor xScale yScale \<sigma> = (base_plot, \<tau>)"
  shows "snd (Grid_constructor super_constructor xScale yScale colorScale \<sigma>) r =
           (if r = xScale \<or> r = yScale
            then (case \<tau> r of
                    Category c \<Rightarrow> Category (c\<lparr>innerPadding_field := 0, outerPadding_field := 0\<rparr>)
                  | AbstractQuantitative f \<Rightarrow> AbstractQuantitative f
                  | OtherScale f \<Rightarrow> OtherScale f)
            else \<tau> r)"
  using assms
  by (auto simp add: Grid_constructor_def Let_def innerPadding_def outerPadding_def
      split: Scale.splits)

theorem Grid_constructor_resets_category_padding_witness:
  "snd (Grid_constructor example_super 0 1 2 example_scales) 0 =
     Category (example_category\<lparr>innerPadding_field := 0, outerPadding_field := 0\<rparr>)
   \<and> snd (Grid_constructor example_super 0 1 2 example_scales) 1 = example_scales 1
   \<and> snd (Grid_constructor example_super 0 1 2 example_scales) 2 = example_scales 2
   \<and> snd (Grid_constructor example_super 1 0 2 example_scales) 0 =
     Category (example_category\<lparr>innerPadding_field := 0, outerPadding_field := 0\<rparr>)
   \<and> snd (Grid_constructor example_super 0 0 2 example_scales) 0 =
     Category (example_category\<lparr>innerPadding_field := 0, outerPadding_field := 0\<rparr>)"
proof -
  have s: "example_super x y example_scales = (empty_plot, example_scales)" for x y
    by (simp add: example_super_def)
  have k: "example_scales 0 = Category example_category"
      "example_scales 1 = AbstractQuantitative (\<lambda>v. case v of Num x \<Rightarrow> 2 * x | _ \<Rightarrow> 0)"
      "example_scales (Suc 0) = AbstractQuantitative (\<lambda>v. case v of Num x \<Rightarrow> 2 * x | _ \<Rightarrow> 0)"
      "example_scales 2 = OtherScale (\<lambda>v. Str ''#ffffff'')"
    by (simp_all add: example_scales_def)
  show ?thesis
    using Grid_constructor_resets_category_padding [of example_super 0 1 example_scales, OF s, of 2 0]
      Grid_constructor_resets_category_padding [of example_super 0 1 example_scales, OF s, of 2 1]
      Grid_constructor_resets_category_padding [of example_super 0 1 example_scales, OF s, of 2 2]
      Grid_constructor_resets_category_padding [of example_super 1 0 example_scales, OF s, of 2 0]
      Grid_constructor_resets_category_padding [of example_super 0 0 example_scales, OF s, of 2 0]
    by (simp add: k)
qed

section \<open>Removing a component from a container\<close>

lemma remove_not_member:
  "has cls s x = Inr False \<Longrightarrow> remove cls x s = (Inr (), s, [])"
  by (simp add: remove_def)

lemma remove_member:
  "has cls s x = Inr True \<Longrightarrow>
   remove cls x s =
     (Inr (), snd (remove_variant cls x s),
      [OffDetach x, Remove_variant x, Detach x, Redraw_container])"
  by (simp add: remove_def)

lemma remove_has_throws:
  "has cls s x = Inl e \<Longrightarrow> remove cls x s = (Inl e, s, [])"
  by (simp add: remove_def)

text \<open>On the class \<open>ComponentContainer\<close> itself \<open>remove\<close> throws, whatever the component.\<close>

lemma remove_ComponentContainer:
  "remove ComponentContainer x s =
     (Inl (Error ''has() is not implemented on ComponentContainer''), s, [])"
  by (simp add: remove_def ComponentContainer_def)









section \<open>Drawing rectangles on a canvas\<close>

lemma forEach_point_in_order:
  "\<forall>k < length data. snd (draw_point d3_color_of projectors (data ! k) (index + k)) = None \<Longrightarrow>
   forEach_point d3_color_of projectors data index =
     (concat (map (\<lambda>k. fst (draw_point d3_color_of projectors (data ! k) (index + k)))
                [0..<length data]), None)"
proof (induction data arbitrary: index)
  case Nil
  then show ?case by simp
next
  case (Cons point rest)
  have head: "snd (draw_point d3_color_of projectors point index) = None"
    using Cons.prems by (auto dest: spec [of _ 0])
  have tail: "\<forall>k < length rest.
      snd (draw_point d3_color_of projectors (rest ! k) (index + 1 + k)) = None"
    using Cons.prems by (auto dest: spec [of _ "Suc k" for k])
  have shift: "map (\<lambda>k. fst (draw_point d3_color_of projectors ((point # rest) ! k) (index + k)))
                 [0..<length (point # rest)] =
               fst (draw_point d3_color_of projectors point index) #
               map (\<lambda>k. fst (draw_point d3_color_of projectors (rest ! k) (index + 1 + k)))
                 [0..<length rest]"
    by (simp add: upt_conv_Cons map_Suc_upt [symmetric] del: upt_Suc)
  obtain calls where c: "draw_point d3_color_of projectors point index = (calls, None)"
    using head by (cases "draw_point d3_color_of projectors point index") auto
  show ?case
    using Cons.IH [OF tail] c shift by simp
qed

text \<open>
  When no colour fails to parse, the calls of a draw are the calls for each point, in
  the order of the data, each point with its index.
\<close>

lemma canvasDraw_in_order:
  "\<forall>k < length data. snd (draw_point d3_color_of projectors (data ! k) k) = None \<Longrightarrow>
   canvasDraw d3_color_of data projectors =
     (concat (map (\<lambda>k. fst (draw_point d3_color_of projectors (data ! k) k))
                [0..<length data]), None)"
  using forEach_point_in_order [of data d3_color_of projectors 0]
  by (simp add: canvasDraw_def)

text \<open>
  For one point whose stroke and fill, when set, parse as colours: one path, then the
  stroke exactly when the stroke attribute is truthy, then the fill exactly when the
  fill attribute is truthy, each with the colour's opacity replaced by the opacity
  attribute when that attribute is truthy, and with the colour's own opacity otherwise.
\<close>

lemma draw_point_calls:
  assumes "resolve_attrs projectors point index = attrs"
    and "truthy (get_attr attrs ''stroke'') \<Longrightarrow> d3_color_of (get_attr attrs ''stroke'') = Some sc"
    and "truthy (get_attr attrs ''fill'') \<Longrightarrow> d3_color_of (get_attr attrs ''fill'') = Some fc"
  shows "draw_point d3_color_of projectors point index =
     ([BeginPath, Rect (get_attr attrs ''x'') (get_attr attrs ''y'')
                       (get_attr attrs ''width'') (get_attr attrs ''height'')]
      @ (if truthy (get_attr attrs ''stroke'')
         then [StrokeStyle (if truthy (get_attr attrs ''opacity'')
                            then sc\<lparr>opacity := get_attr attrs ''opacity''\<rparr> else sc), Stroke]
         else [])
      @ (if truthy (get_attr attrs ''fill'')
         then [FillStyle (if truthy (get_attr attrs ''opacity'')
                          then fc\<lparr>opacity := get_attr attrs ''opacity''\<rparr> else fc), Fill]
         else []),
      None)"
  using assms by (simp add: draw_point_def Let_def)

text \<open>
  C9, at a failing input. One datum, filled red, a colour of alpha 1, with an opacity
  attribute that resolves to 0: the drawer fills the rect with the colour's own alpha 1.
  The opacity attribute has not replaced it, since 0 is falsy in the test of the source.
\<close>

theorem canvasDraw_opacity_zero_ignored:
  "canvasDraw example_d3_color [3] (red_rects 0) =
     ([BeginPath, Rect (Num 3) (Num 0) (Num 10) (Num 5),
       FillStyle \<lparr>channels = (255, 0, 0), opacity = Num 1\<rparr>, Fill], None)
   \<and> get_attr (resolve_attrs (red_rects 0) 3 0) ''opacity'' = Num 0
   \<and> canvasDraw example_d3_color [3] (red_rects (1 / 2)) =
     ([BeginPath, Rect (Num 3) (Num 0) (Num 10) (Num 5),
       FillStyle \<lparr>channels = (255, 0, 0), opacity = Num (1 / 2)\<rparr>, Fill], None)"
  by (simp add: canvasDraw_def draw_point_def resolve_attrs_def get_attr_def truthy_def
      red_rects_def example_d3_color_def)


end
